theory Spec2Isabelle
  imports Complex_Main "HOL-Library.Sublist"
begin

section \<open>Python values\<close>

text \<open>
  The three scripts work on what \<open>json.load\<close> returns: \<open>None\<close>, booleans, numbers,
  strings, lists and dicts. A dict is an association list read by \<open>map_of\<close>, so the first
  pair of a key is the one the dict holds; the empty dict is \<open>JObj []\<close>. One \<open>char\<close>
  stands for one character of a Python \<open>str\<close>. A float is a rational here: the scripts only
  test a number for truth and otherwise fail on it as on any value that is neither a string
  nor a container.
\<close>

datatype json =
    JNull
  | JBool bool
  | JInt int
  | JFloat rat
  | JStr string
  | JList "json list"
  | JObj "(string \<times> json) list"

datatype error = AttributeError | TypeError | JSONDecodeError

datatype severity = CRITICAL | HIGH | MEDIUM | LOW

text \<open>\<open>bool(v)\<close>, as \<open>if not v\<close> reads it.\<close>

fun truthy :: "json \<Rightarrow> bool" where
  "truthy JNull = False"
| "truthy (JBool b) = b"
| "truthy (JInt i) = (i \<noteq> 0)"
| "truthy (JFloat r) = (r \<noteq> 0)"
| "truthy (JStr s) = (s \<noteq> [])"
| "truthy (JList xs) = (xs \<noteq> [])"
| "truthy (JObj kvs) = (kvs \<noteq> [])"

text \<open>\<open>d.get(k, dflt)\<close>: only a dict has the method.\<close>

fun py_get :: "json \<Rightarrow> string \<Rightarrow> json \<Rightarrow> error + json" where
  "py_get (JObj kvs) k dflt = Inr (case map_of kvs k of None \<Rightarrow> dflt | Some v \<Rightarrow> v)"
| "py_get _ k dflt = Inl AttributeError"

text \<open>\<open>sub in s\<close> on two strings: \<open>sub\<close> occurs in \<open>s\<close> as a contiguous block.\<close>

fun py_str_in :: "string \<Rightarrow> string \<Rightarrow> bool" where
  "py_str_in sub [] = (sub = [])"
| "py_str_in sub (c # cs) = (prefix sub (c # cs) \<or> py_str_in sub cs)"

text \<open>
  \<open>sub in v\<close> for a string \<open>sub\<close> and any value \<open>v\<close>: substring test on a string,
  membership in a list, key membership in a dict, \<open>TypeError\<close> on everything else.
\<close>

fun py_in :: "string \<Rightarrow> json \<Rightarrow> error + bool" where
  "py_in sub (JStr s) = Inr (py_str_in sub s)"
| "py_in sub (JList xs) = Inr (JStr sub \<in> set xs)"
| "py_in sub (JObj kvs) = Inr (sub \<in> set (map fst kvs))"
| "py_in sub _ = Inl TypeError"

text \<open>\<open>any(p in v for p in ps)\<close>: stops at the first pattern found, or at the first exception.\<close>

fun py_any_in :: "string list \<Rightarrow> json \<Rightarrow> error + bool" where
  "py_any_in [] v = Inr False"
| "py_any_in (p # ps) v =
     (case py_in p v of
        Inl e \<Rightarrow> Inl e
      | Inr found \<Rightarrow> if found then Inr True else py_any_in ps v)"

text \<open>\<open>a in v or b in v\<close>: the second test runs only when the first is false.\<close>

definition py_in_or_in :: "string \<Rightarrow> string \<Rightarrow> json \<Rightarrow> error + bool" where
  "py_in_or_in a b v =
     (case py_in a v of
        Inl e \<Rightarrow> Inl e
      | Inr found \<Rightarrow> if found then Inr True else py_in b v)"

text \<open>
  The elements a \<open>for\<close> loop visits: the items of a list, the keys of a dict, the
  characters of a string; any other value is not iterable.
\<close>

fun py_iter :: "json \<Rightarrow> error + json list" where
  "py_iter (JList xs) = Inr xs"
| "py_iter (JObj kvs) = Inr (map JStr (remdups (map fst kvs)))"
| "py_iter (JStr s) = Inr (map (\<lambda>c. JStr [c]) s)"
| "py_iter _ = Inl TypeError"

text \<open>
  The file \<open>results_json.json\<close> of the results directory: missing, present but not JSON,
  or present with a value.
\<close>

datatype results_file = Absent | Unparsable | Content json

section \<open>security-gate.py\<close>

record gate =
  max_critical :: int
  max_high :: int

text \<open>The lines the gate prints, one constructor for each \<open>print\<close> of the script.\<close>

datatype reason = CriticalIssues int int | HighSeverityIssues int int

datatype line =
    ResultsNotFound
  | Rule
  | Title
  | NoScanResults
  | FindingsSummary
  | CountLine severity int
  | PolicyHeader
  | MaxCriticalLine int
  | MaxHighLine int
  | GatePassed
  | MeetsRequirements
  | GateFailed
  | ReasonsHeader
  | ReasonLine reason
  | PleaseFix

text \<open>\<open>SecurityGate.load_checkov_results\<close>: what it prints and what it returns.\<close>

fun load_checkov_results :: "results_file \<Rightarrow> error + (line list \<times> json)" where
  "load_checkov_results Absent = Inr ([ResultsNotFound], JObj [])"
| "load_checkov_results Unparsable = Inl JSONDecodeError"
| "load_checkov_results (Content d) = Inr ([], d)"

text \<open>\<open>SecurityGate.categorize_severity\<close>.\<close>

definition categorize_severity :: "json \<Rightarrow> error + severity" where
  "categorize_severity check_id =
     (case py_any_in [''CKV_GCP_62'', ''CKV_GCP_6'', ''CKV_GCP_14''] check_id of
        Inl e \<Rightarrow> Inl e
      | Inr crit \<Rightarrow>
          if crit then Inr CRITICAL
          else (case py_in_or_in ''CKV_GCP'' ''CKV_AWS'' check_id of
                  Inl e \<Rightarrow> Inl e
                | Inr high \<Rightarrow>
                    if high then Inr HIGH
                    else (case py_in ''CKV2'' check_id of
                            Inl e \<Rightarrow> Inl e
                          | Inr med \<Rightarrow> if med then Inr MEDIUM else Inr LOW)))"

text \<open>The dict \<open>severity_counts\<close> of \<open>evaluate\<close>, all four keys at 0.\<close>

definition severity_counts0 :: "severity \<Rightarrow> int" where
  "severity_counts0 = (\<lambda>_. 0)"

text \<open>\<open>self.categorize_severity(check.get('check_id', ''))\<close>, the first line of the loop body.\<close>

definition check_severity :: "json \<Rightarrow> error + severity" where
  "check_severity check =
     (case py_get check ''check_id'' (JStr []) of
        Inl e \<Rightarrow> Inl e
      | Inr cid \<Rightarrow> categorize_severity cid)"

text \<open>The counting loop of \<open>evaluate\<close> over the failed checks.\<close>

fun count_checks :: "json list \<Rightarrow> (severity \<Rightarrow> int) \<Rightarrow> error + (severity \<Rightarrow> int)" where
  "count_checks [] counts = Inr counts"
| "count_checks (check # rest) counts =
     (case check_severity check of
        Inl e \<Rightarrow> Inl e
      | Inr sev \<Rightarrow> count_checks rest (counts(sev := counts sev + 1)))"

text \<open>\<open>checkov_data.get('results', {}).get('failed_checks', [])\<close>, then the loop's iterator.\<close>

definition failed_checks_of :: "json \<Rightarrow> error + json list" where
  "failed_checks_of checkov_data =
     (case py_get checkov_data ''results'' (JObj []) of
        Inl e \<Rightarrow> Inl e
      | Inr results \<Rightarrow>
          (case py_get results ''failed_checks'' (JList []) of
             Inl e \<Rightarrow> Inl e
           | Inr failed_checks \<Rightarrow> py_iter failed_checks))"

text \<open>The two threshold tests of \<open>evaluate\<close>: the verdict and the reasons, in order.\<close>

definition check_thresholds :: "gate \<Rightarrow> (severity \<Rightarrow> int) \<Rightarrow> bool \<times> reason list" where
  "check_thresholds g counts =
     (let (passed1, reasons1) =
            (if counts CRITICAL > max_critical g
             then (False, [CriticalIssues (counts CRITICAL) (max_critical g)])
             else (True, []));
          (passed2, reasons2) =
            (if counts HIGH > max_high g
             then (False, reasons1 @ [HighSeverityIssues (counts HIGH) (max_high g)])
             else (passed1, reasons1))
      in (passed2, reasons2))"

text \<open>The report \<open>evaluate\<close> prints once the counts are known.\<close>

definition summary_lines :: "gate \<Rightarrow> (severity \<Rightarrow> int) \<Rightarrow> line list" where
  "summary_lines g counts =
     [FindingsSummary,
      CountLine CRITICAL (counts CRITICAL), CountLine HIGH (counts HIGH),
      CountLine MEDIUM (counts MEDIUM), CountLine LOW (counts LOW),
      PolicyHeader, MaxCriticalLine (max_critical g), MaxHighLine (max_high g)]"

definition verdict_lines :: "bool \<Rightarrow> reason list \<Rightarrow> line list" where
  "verdict_lines passed reasons =
     (if passed then [Rule, GatePassed, Rule, MeetsRequirements]
      else [Rule, GateFailed, Rule, ReasonsHeader] @ map ReasonLine reasons @ [PleaseFix])"

text \<open>\<open>SecurityGate.evaluate\<close>: the printed lines and the returned verdict, or the exception.\<close>

definition evaluate :: "gate \<Rightarrow> results_file \<Rightarrow> error + (line list \<times> bool)" where
  "evaluate g file =
     (case load_checkov_results file of
        Inl e \<Rightarrow> Inl e
      | Inr (loaded, checkov_data) \<Rightarrow>
          if \<not> truthy checkov_data
          then Inr ([Rule, Title, Rule] @ loaded @ [NoScanResults], False)
          else (case failed_checks_of checkov_data of
                  Inl e \<Rightarrow> Inl e
                | Inr failed_checks \<Rightarrow>
                    (case count_checks failed_checks severity_counts0 of
                       Inl e \<Rightarrow> Inl e
                     | Inr counts \<Rightarrow>
                         (let (passed, reasons) = check_thresholds g counts
                          in Inr ([Rule, Title, Rule] @ loaded @ summary_lines g counts
                                    @ verdict_lines passed reasons,
                                  passed)))))"

section \<open>scan.py\<close>

definition critical_patterns :: "string list" where
  "critical_patterns = [''CKV_GCP_6'', ''CKV_GCP_62'', ''CKV_GCP_14'']"

definition high_patterns :: "string list" where
  "high_patterns = [''CKV_GCP_'', ''CKV_AWS_'']"

text \<open>\<open>SecurityScanner._map_checkov_severity\<close>.\<close>

definition map_checkov_severity :: "json \<Rightarrow> error + severity" where
  "map_checkov_severity check_id =
     (case py_any_in critical_patterns check_id of
        Inl e \<Rightarrow> Inl e
      | Inr crit \<Rightarrow>
          if crit then Inr CRITICAL
          else (case py_any_in high_patterns check_id of
                  Inl e \<Rightarrow> Inl e
                | Inr high \<Rightarrow> if high then Inr HIGH else Inr MEDIUM))"

text \<open>
  The dict \<open>run_checkov\<close> appends for one failed check. \<open>get\<close> without a default gives
  \<open>None\<close> for a missing key.
\<close>

record checkov_finding =
  cf_check_id :: json
  cf_check_name :: json
  cf_file :: json
  cf_resource :: json
  cf_severity :: severity
  cf_guideline :: json

definition checkov_finding_of :: "json \<Rightarrow> error + checkov_finding" where
  "checkov_finding_of check_type =
     (case py_get check_type ''check_id'' JNull of
        Inl e \<Rightarrow> Inl e
      | Inr cid \<Rightarrow>
     (case py_get check_type ''check_name'' JNull of
        Inl e \<Rightarrow> Inl e
      | Inr cname \<Rightarrow>
     (case py_get check_type ''file_path'' JNull of
        Inl e \<Rightarrow> Inl e
      | Inr fpath \<Rightarrow>
     (case py_get check_type ''resource'' JNull of
        Inl e \<Rightarrow> Inl e
      | Inr res \<Rightarrow>
     (case map_checkov_severity cid of
        Inl e \<Rightarrow> Inl e
      | Inr sev \<Rightarrow>
     (case py_get check_type ''guideline'' (JStr []) of
        Inl e \<Rightarrow> Inl e
      | Inr guide \<Rightarrow>
          Inr \<lparr>cf_check_id = cid, cf_check_name = cname, cf_file = fpath,
               cf_resource = res, cf_severity = sev, cf_guideline = guide\<rparr>))))))"

text \<open>
  The loop of \<open>run_checkov\<close> that fills \<open>result["findings"]\<close>: an exception leaves the
  findings appended so far in place.
\<close>

fun extract_findings ::
  "json list \<Rightarrow> checkov_finding list \<Rightarrow> checkov_finding list \<times> error option" where
  "extract_findings [] found = (found, None)"
| "extract_findings (check_type # rest) found =
     (case checkov_finding_of check_type of
        Inl e \<Rightarrow> (found, Some e)
      | Inr f \<Rightarrow> extract_findings rest (found @ [f]))"

record checkov_result =
  cr_passed :: bool
  cr_summary :: "(string \<times> json) list"
  cr_findings :: "checkov_finding list"
  cr_error :: "error option"

definition checkov_result0 :: checkov_result where
  "checkov_result0 = \<lparr>cr_passed = False, cr_summary = [], cr_findings = [], cr_error = None\<rparr>"

definition summary_of :: "json \<Rightarrow> error + (string \<times> json) list" where
  "summary_of summary =
     (case py_get summary ''passed'' (JInt 0) of
        Inl e \<Rightarrow> Inl e
      | Inr p \<Rightarrow>
     (case py_get summary ''failed'' (JInt 0) of
        Inl e \<Rightarrow> Inl e
      | Inr f \<Rightarrow>
     (case py_get summary ''skipped'' (JInt 0) of
        Inl e \<Rightarrow> Inl e
      | Inr s \<Rightarrow>
     (case py_get summary ''parsing_errors'' (JInt 0) of
        Inl e \<Rightarrow> Inl e
      | Inr pe \<Rightarrow>
          Inr [(''passed'', p), (''failed'', f), (''skipped'', s), (''parsing_errors'', pe)]))))"

text \<open>
  \<open>SecurityScanner.run_checkov\<close> from the point where the checkov process has ended, as a
  function of the output file it left: the \<open>try\<close> block turns every exception into the
  \<open>error\<close> entry of the result, whose \<open>passed\<close> stays false.
\<close>

definition run_checkov :: "results_file \<Rightarrow> checkov_result" where
  "run_checkov file =
     (case file of
        Absent \<Rightarrow> checkov_result0
      | Unparsable \<Rightarrow> checkov_result0\<lparr>cr_error := Some JSONDecodeError\<rparr>
      | Content checkov_output \<Rightarrow>
     (case py_get checkov_output ''summary'' (JObj []) of
        Inl e \<Rightarrow> checkov_result0\<lparr>cr_error := Some e\<rparr>
      | Inr summary \<Rightarrow>
     (case summary_of summary of
        Inl e \<Rightarrow> checkov_result0\<lparr>cr_error := Some e\<rparr>
      | Inr sm \<Rightarrow>
     (case failed_checks_of checkov_output of
        Inl e \<Rightarrow> checkov_result0\<lparr>cr_summary := sm, cr_error := Some e\<rparr>
      | Inr checks \<Rightarrow>
     (case extract_findings checks [] of
        (found, Some e) \<Rightarrow>
          checkov_result0\<lparr>cr_summary := sm, cr_findings := found, cr_error := Some e\<rparr>
      | (found, None) \<Rightarrow>
          (let critical_count = length (filter (\<lambda>f. cf_severity f = CRITICAL) found);
               high_count = length (filter (\<lambda>f. cf_severity f = HIGH) found)
           in checkov_result0\<lparr>cr_summary := sm, cr_findings := found,
                cr_passed := (critical_count = 0 \<and> high_count \<le> 5)\<rparr>))))))"





section \<open>generate-pr-comment.py\<close>

text \<open>The \<open>if\<close>/\<open>elif\<close> chain inside the loop of \<open>categorize_by_severity\<close>.\<close>

definition inline_severity :: "json \<Rightarrow> error + severity" where
  "inline_severity check_id =
     (case py_any_in [''CKV_GCP_62'', ''CKV_GCP_6'', ''CKV_GCP_14''] check_id of
        Inl e \<Rightarrow> Inl e
      | Inr crit \<Rightarrow>
          if crit then Inr CRITICAL
          else (case py_in_or_in ''CKV_GCP'' ''CKV_AWS'' check_id of
                  Inl e \<Rightarrow> Inl e
                | Inr high \<Rightarrow>
                    if high then Inr HIGH
                    else (case py_in ''CKV2'' check_id of
                            Inl e \<Rightarrow> Inl e
                          | Inr med \<Rightarrow> if med then Inr MEDIUM else Inr LOW)))"

fun severity_name :: "severity \<Rightarrow> string" where
  "severity_name CRITICAL = ''CRITICAL''"
| "severity_name HIGH = ''HIGH''"
| "severity_name MEDIUM = ''MEDIUM''"
| "severity_name LOW = ''LOW''"

text \<open>\<open>d[k] = v\<close>: an existing key keeps its place, a new key goes last.\<close>

fun dict_set :: "(string \<times> json) list \<Rightarrow> string \<Rightarrow> json \<Rightarrow> (string \<times> json) list" where
  "dict_set [] k v = [(k, v)]"
| "dict_set ((k', v') # kvs) k v =
     (if k' = k then (k, v) # kvs else (k', v') # dict_set kvs k v)"

text \<open>
  The loop of \<open>categorize_by_severity\<close>: each finding gets its \<open>severity\<close> entry and is
  appended to the list of that severity.
\<close>

fun categorize_findings ::
  "json list \<Rightarrow> (severity \<Rightarrow> json list) \<Rightarrow> error + (severity \<Rightarrow> json list)" where
  "categorize_findings [] severity_map = Inr severity_map"
| "categorize_findings (JObj kvs # rest) severity_map =
     (case py_get (JObj kvs) ''check_id'' (JStr []) of
        Inl e \<Rightarrow> Inl e
      | Inr cid \<Rightarrow>
          (case inline_severity cid of
             Inl e \<Rightarrow> Inl e
           | Inr sev \<Rightarrow>
               categorize_findings rest
                 (severity_map
                    (sev := severity_map sev
                       @ [JObj (dict_set kvs ''severity'' (JStr (severity_name sev)))]))))"
| "categorize_findings (_ # rest) severity_map = Inl AttributeError"

definition categorize_by_severity :: "json \<Rightarrow> error + (severity \<Rightarrow> json list)" where
  "categorize_by_severity findings =
     (case py_iter findings of
        Inl e \<Rightarrow> Inl e
      | Inr fs \<Rightarrow> categorize_findings fs (\<lambda>_. []))"

text \<open>\<open>text[:k]\<close>: a negative \<open>k\<close> counts from the end.\<close>

definition py_slice_to :: "'a list \<Rightarrow> int \<Rightarrow> 'a list" where
  "py_slice_to xs k = (if 0 \<le> k then take (nat k) xs else take (length xs - nat (- k)) xs)"

text \<open>\<open>truncate_text\<close>.\<close>

definition truncate_text :: "string \<Rightarrow> int \<Rightarrow> string" where
  "truncate_text txt max_length =
     (if int (length txt) \<le> max_length then txt
      else py_slice_to txt (max_length - 3) @ ''...'')"

text \<open>\<open>s.lstrip(chars)\<close>: drops the leading characters that occur in \<open>chars\<close>.\<close>

definition lstrip :: "string \<Rightarrow> string \<Rightarrow> string" where
  "lstrip s chars = dropWhile (\<lambda>c. c \<in> set chars) s"

text \<open>\<open>finding.get('file_path', '').lstrip('/')\<close>, as \<open>generate_pr_comment\<close> writes it.\<close>

definition file_path_of :: "json \<Rightarrow> error + string" where
  "file_path_of finding =
     (case py_get finding ''file_path'' (JStr []) of
        Inl e \<Rightarrow> Inl e
      | Inr (JStr p) \<Rightarrow> Inr (lstrip p ''/'')
      | Inr _ \<Rightarrow> Inl AttributeError)"

section \<open>Substring test\<close>

lemma py_str_in_sublist: "py_str_in sub s = sublist sub s"
  by (induction s) (simp_all add: sublist_Cons_right)

lemma py_str_in_trans: "py_str_in a b \<Longrightarrow> py_str_in b s \<Longrightarrow> py_str_in a s"
  unfolding py_str_in_sublist by (rule sublist_order.order_trans)

lemma gcp6_in_gcp62: "py_str_in ''CKV_GCP_6'' ''CKV_GCP_62''"
  by simp

lemma gcp_in_critical:
  "py_str_in ''CKV_GCP_'' ''CKV_GCP_6''" "py_str_in ''CKV_GCP_'' ''CKV_GCP_14''"
  "py_str_in ''CKV_GCP'' ''CKV_GCP_''" "py_str_in ''CKV_AWS'' ''CKV_AWS_''"
  by simp_all

section \<open>Severity classification\<close>



text \<open>
  C3. A check id that contains one of the critical patterns \<open>CKV_GCP_62\<close>,
  \<open>CKV_GCP_6\<close>, \<open>CKV_GCP_14\<close> is classified CRITICAL by each of the three
  classifiers. Every such id also contains the provider prefix \<open>CKV_GCP\<close> of the HIGH
  tier, so the critical test wins over the high test.
\<close>

theorem critical_takes_precedence:
  assumes "p \<in> {''CKV_GCP_62'', ''CKV_GCP_6'', ''CKV_GCP_14''}" and "py_str_in p check_id"
  shows "categorize_severity (JStr check_id) = Inr CRITICAL
       \<and> map_checkov_severity (JStr check_id) = Inr CRITICAL
       \<and> inline_severity (JStr check_id) = Inr CRITICAL"
proof -
  have "py_str_in ''CKV_GCP_6'' check_id \<or> py_str_in ''CKV_GCP_14'' check_id"
    using assms gcp6_in_gcp62 py_str_in_trans by blast
  then show ?thesis
    by (auto simp: categorize_severity_def map_checkov_severity_def inline_severity_def
        critical_patterns_def)
qed

theorem critical_takes_precedence_witness:
  "py_in_or_in ''CKV_GCP'' ''CKV_AWS'' (JStr ''CKV_GCP_62'') = Inr True
   \<and> categorize_severity (JStr ''CKV_GCP_62'') = Inr CRITICAL
   \<and> map_checkov_severity (JStr ''CKV_GCP_62'') = Inr CRITICAL
   \<and> inline_severity (JStr ''CKV_GCP_62'') = Inr CRITICAL"
  using critical_takes_precedence [of "''CKV_GCP_62''" "''CKV_GCP_62''"]
  by (simp add: py_in_or_in_def)

text \<open>
  C4, as stated, fails for \<open>scan.py\<close>: the id \<open>CKV_K8S_21\<close> contains no critical
  pattern, no provider prefix and no \<open>CKV2\<close>, and \<open>_map_checkov_severity\<close> returns MEDIUM
  for it, not LOW.
\<close>

theorem scan_has_no_low_tier_counterexample:
  "py_any_in critical_patterns (JStr ''CKV_K8S_21'') = Inr False
   \<and> py_any_in high_patterns (JStr ''CKV_K8S_21'') = Inr False
   \<and> py_in_or_in ''CKV_GCP'' ''CKV_AWS'' (JStr ''CKV_K8S_21'') = Inr False
   \<and> py_in ''CKV2'' (JStr ''CKV_K8S_21'') = Inr False
   \<and> map_checkov_severity (JStr ''CKV_K8S_21'') = Inr MEDIUM
   \<and> map_checkov_severity (JStr ''CKV_K8S_21'') \<noteq> Inr LOW"
  by (simp add: map_checkov_severity_def critical_patterns_def high_patterns_def py_in_or_in_def)

text \<open>
  C4, amended. For a check id string with no critical pattern and neither \<open>CKV_GCP\<close> nor
  \<open>CKV_AWS\<close> in it, \<open>SecurityGate.categorize_severity\<close> and the chain inside
  \<open>categorize_by_severity\<close> return MEDIUM when the id contains \<open>CKV2\<close> and LOW
  otherwise, while \<open>SecurityScanner._map_checkov_severity\<close> returns MEDIUM in both cases.
\<close>

theorem unmatched_check_id_severity:
  assumes "\<forall>p \<in> {''CKV_GCP_62'', ''CKV_GCP_6'', ''CKV_GCP_14''}. \<not> py_str_in p check_id"
    and "\<not> py_str_in ''CKV_GCP'' check_id" and "\<not> py_str_in ''CKV_AWS'' check_id"
  shows "categorize_severity (JStr check_id)
           = Inr (if py_str_in ''CKV2'' check_id then MEDIUM else LOW)
       \<and> inline_severity (JStr check_id)
           = Inr (if py_str_in ''CKV2'' check_id then MEDIUM else LOW)
       \<and> map_checkov_severity (JStr check_id) = Inr MEDIUM"
proof -
  have "\<not> py_str_in ''CKV_GCP_'' check_id" "\<not> py_str_in ''CKV_AWS_'' check_id"
    using assms(2,3) gcp_in_critical(3,4) py_str_in_trans by blast+
  with assms show ?thesis
    by (simp add: categorize_severity_def map_checkov_severity_def inline_severity_def
        critical_patterns_def high_patterns_def py_in_or_in_def)
qed

theorem unmatched_check_id_severity_witness:
  "categorize_severity (JStr ''CKV2_K8S_6'') = Inr MEDIUM
   \<and> inline_severity (JStr ''CKV2_K8S_6'') = Inr MEDIUM
   \<and> map_checkov_severity (JStr ''CKV2_K8S_6'') = Inr MEDIUM"
  using unmatched_check_id_severity [of "''CKV2_K8S_6''"]
  by simp




section \<open>The security gate\<close>

lemma count_checks_filter:
  assumes "\<forall>c \<in> set checks. \<exists>sev. check_severity c = Inr sev"
  shows "count_checks checks counts =
           Inr (\<lambda>sev. counts sev + int (length (filter (\<lambda>c. check_severity c = Inr sev) checks)))"
  using assms
proof (induction checks arbitrary: counts)
  case Nil
  then show ?case by simp
next
  case (Cons c rest)
  then obtain sev where sev: "check_severity c = Inr sev"
    by auto
  have "count_checks (c # rest) counts = count_checks rest (counts(sev := counts sev + 1))"
    by (simp add: sev)
  also have "\<dots> = Inr (\<lambda>s. (counts(sev := counts sev + 1)) s
                          + int (length (filter (\<lambda>c. check_severity c = Inr s) rest)))"
    using Cons by simp
  also have "\<dots> = Inr (\<lambda>s. counts s
                          + int (length (filter (\<lambda>c. check_severity c = Inr s) (c # rest))))"
    by (auto simp: sev fun_eq_iff)
  finally show ?case .
qed

lemma check_thresholds_passed:
  "fst (check_thresholds g counts)
     = (counts CRITICAL \<le> max_critical g \<and> counts HIGH \<le> max_high g)"
  by (auto simp: check_thresholds_def)

lemma evaluate_counts:
  assumes "truthy d" and "failed_checks_of d = Inr checks"
    and "count_checks checks severity_counts0 = Inr counts"
  shows "evaluate g (Content d) =
           Inr ([Rule, Title, Rule] @ summary_lines g counts
                  @ verdict_lines (fst (check_thresholds g counts)) (snd (check_thresholds g counts)),
                fst (check_thresholds g counts))"
  using assms by (simp add: evaluate_def split: prod.splits)

text \<open>
  C1. When the results file holds a value that is not empty and the counting loop meets no
  exception, \<open>SecurityGate.evaluate\<close> returns true exactly when the number of failed
  checks classified CRITICAL is at most \<open>max_critical\<close> and the number classified HIGH is
  at most \<open>max_high\<close>. A count equal to its maximum passes, for every integer maximum.
\<close>

theorem evaluate_passed_iff_within_thresholds:
  assumes "truthy d" and "failed_checks_of d = Inr checks"
    and "\<forall>c \<in> set checks. \<exists>sev. check_severity c = Inr sev"
  shows "\<exists>out. evaluate g (Content d) =
           Inr (out,
                int (length (filter (\<lambda>c. check_severity c = Inr CRITICAL) checks)) \<le> max_critical g
                \<and> int (length (filter (\<lambda>c. check_severity c = Inr HIGH) checks)) \<le> max_high g)"
proof -
  let ?counts = "\<lambda>sev. severity_counts0 sev
                   + int (length (filter (\<lambda>c. check_severity c = Inr sev) checks))"
  have "count_checks checks severity_counts0 = Inr ?counts"
    using assms(3) by (rule count_checks_filter)
  from evaluate_counts [OF assms(1,2) this, of g] show ?thesis
    by (simp add: check_thresholds_passed severity_counts0_def)
qed

theorem evaluate_passed_iff_within_thresholds_witness:
  "\<exists>out. evaluate \<lparr>max_critical = 1, max_high = 0\<rparr>
     (Content (JObj [(''results'', JObj [(''failed_checks'',
        JList [JObj [(''check_id'', JStr ''CKV_GCP_62'')], JObj [(''check_name'', JStr ''n'')]])])]))
   = Inr (out, True)"
  using evaluate_passed_iff_within_thresholds
    [of "JObj [(''results'', JObj [(''failed_checks'',
           JList [JObj [(''check_id'', JStr ''CKV_GCP_62'')], JObj [(''check_name'', JStr ''n'')]])])]"
        "[JObj [(''check_id'', JStr ''CKV_GCP_62'')], JObj [(''check_name'', JStr ''n'')]]"
        "\<lparr>max_critical = 1, max_high = 0\<rparr>"]
  by (simp add: failed_checks_of_def check_severity_def categorize_severity_def py_in_or_in_def)

lemma evaluate_output_cases:
  assumes "evaluate g f = Inr (out, passed)"
  shows "(out = [Rule, Title, Rule, ResultsNotFound, NoScanResults] \<and> \<not> passed)
       \<or> (out = [Rule, Title, Rule, NoScanResults] \<and> \<not> passed)
       \<or> (\<exists>counts. out = [Rule, Title, Rule] @ summary_lines g counts
              @ verdict_lines (fst (check_thresholds g counts)) (snd (check_thresholds g counts)))"
proof (cases f)
  case Absent
  with assms show ?thesis by (auto simp: evaluate_def)
next
  case Unparsable
  with assms show ?thesis by (simp add: evaluate_def)
next
  case (Content d)
  show ?thesis
  proof (cases "truthy d")
    case False
    with assms Content show ?thesis
      by (simp add: evaluate_def)
  next
    case True
    with assms Content obtain checks counts where
      "failed_checks_of d = Inr checks" "count_checks checks severity_counts0 = Inr counts"
      by (auto simp: evaluate_def split: sum.splits)
    from evaluate_counts [OF True this, of g] assms Content show ?thesis
      by auto
  qed
qed

lemma no_scan_results_not_in_report:
  "NoScanResults \<notin> set ([Rule, Title, Rule] @ summary_lines g counts @ verdict_lines passed reasons)"
  by (auto simp: summary_lines_def verdict_lines_def)

text \<open>
  C2. Without a results file \<open>SecurityGate.evaluate\<close> returns false and prints the line
  about missing scan results. That line never occurs in an output that holds a threshold
  reason. A loaded, non-empty value with no failed checks passes under thresholds that are
  not negative, and its output does not hold the line either.
\<close>

theorem evaluate_fails_closed_without_results:
  "evaluate g Absent = Inr ([Rule, Title, Rule, ResultsNotFound, NoScanResults], False)
   \<and> (\<forall>f out passed r.
         evaluate g f = Inr (out, passed) \<and> ReasonLine r \<in> set out
           \<longrightarrow> NoScanResults \<notin> set out)
   \<and> (0 \<le> max_critical g \<and> 0 \<le> max_high g \<and> truthy d \<and> failed_checks_of d = Inr []
         \<longrightarrow> (\<exists>out. evaluate g (Content d) = Inr (out, True) \<and> NoScanResults \<notin> set out))"
proof (intro conjI allI impI)
  show "evaluate g Absent = Inr ([Rule, Title, Rule, ResultsNotFound, NoScanResults], False)"
    by (simp add: evaluate_def)
next
  fix f out passed r
  assume a: "evaluate g f = Inr (out, passed) \<and> ReasonLine r \<in> set out"
  from evaluate_output_cases [of g f out passed] a
  show "NoScanResults \<notin> set out"
    using no_scan_results_not_in_report by auto
next
  assume a: "0 \<le> max_critical g \<and> 0 \<le> max_high g \<and> truthy d \<and> failed_checks_of d = Inr []"
  have c: "count_checks [] severity_counts0 = Inr severity_counts0"
    by simp
  have "fst (check_thresholds g severity_counts0)"
    using a by (simp add: check_thresholds_def severity_counts0_def)
  with evaluate_counts [of d "[]" severity_counts0 g] a c
  show "\<exists>out. evaluate g (Content d) = Inr (out, True) \<and> NoScanResults \<notin> set out"
    using no_scan_results_not_in_report by auto
qed

theorem evaluate_fails_closed_without_results_witness:
  "evaluate \<lparr>max_critical = 0, max_high = 5\<rparr> Absent
     = Inr ([Rule, Title, Rule, ResultsNotFound, NoScanResults], False)
   \<and> (\<exists>out. evaluate \<lparr>max_critical = 0, max_high = 5\<rparr>
         (Content (JObj [(''results'', JObj [(''failed_checks'', JList [])])])) = Inr (out, True)
       \<and> NoScanResults \<notin> set out)"
  using evaluate_fails_closed_without_results
    [of "\<lparr>max_critical = 0, max_high = 5\<rparr>"
        "JObj [(''results'', JObj [(''failed_checks'', JList [])])]"]
  by (simp add: failed_checks_of_def)

lemma count_checks_cong:
  assumes "map check_severity xs = map check_severity ys"
  shows "count_checks xs counts = count_checks ys counts"
  using assms
proof (induction xs arbitrary: ys counts)
  case Nil
  then show ?case by simp
next
  case (Cons x xs)
  then obtain y ys' where ys: "ys = y # ys'" "check_severity x = check_severity y"
    "map check_severity xs = map check_severity ys'"
    by (cases ys) auto
  with Cons.IH [of ys'] show ?case
    by (simp split: sum.splits)
qed

text \<open>
  C10. Two lists of failed-check records whose \<open>check_id\<close> entries, as
  \<open>get('check_id', '')\<close> reads them, agree position by position give the same severity
  counts, and \<open>SecurityGate.evaluate\<close> gives the same result (output, verdict or exception)
  on two loaded values that hold them, whatever the other entries of the records are.
\<close>

theorem verdict_depends_on_check_ids_only:
  assumes ids: "map (\<lambda>kvs. py_get (JObj kvs) ''check_id'' (JStr [])) xs
              = map (\<lambda>kvs. py_get (JObj kvs) ''check_id'' (JStr [])) ys"
    and "truthy d1" and "failed_checks_of d1 = Inr (map JObj xs)"
    and "truthy d2" and "failed_checks_of d2 = Inr (map JObj ys)"
  shows "count_checks (map JObj xs) severity_counts0 = count_checks (map JObj ys) severity_counts0
       \<and> evaluate g (Content d1) = evaluate g (Content d2)"
proof -
  have "map check_severity (map JObj xs) = map check_severity (map JObj ys)"
  proof -
    have "map (case_sum Inl categorize_severity)
            (map (\<lambda>kvs. py_get (JObj kvs) ''check_id'' (JStr [])) xs)
        = map (case_sum Inl categorize_severity)
            (map (\<lambda>kvs. py_get (JObj kvs) ''check_id'' (JStr [])) ys)"
      using ids by simp
    then show ?thesis
      by (simp add: check_severity_def comp_def)
  qed
  then have same: "count_checks (map JObj xs) severity_counts0
                 = count_checks (map JObj ys) severity_counts0"
    by (rule count_checks_cong)
  have "evaluate g (Content d1) = evaluate g (Content d2)"
    unfolding evaluate_def using assms(2-5) same by simp
  with same show ?thesis
    by simp
qed

theorem verdict_depends_on_check_ids_only_witness:
  "evaluate \<lparr>max_critical = 0, max_high = 5\<rparr>
     (Content (JObj [(''results'', JObj [(''failed_checks'', JList
        [JObj [(''check_id'', JStr ''CKV_GCP_14''), (''resource'', JStr ''a'')]])])]))
   = evaluate \<lparr>max_critical = 0, max_high = 5\<rparr>
     (Content (JObj [(''summary'', JNull), (''results'', JObj [(''failed_checks'', JList
        [JObj [(''file_path'', JStr ''/main.tf''), (''check_id'', JStr ''CKV_GCP_14'')]])])]))"
  using verdict_depends_on_check_ids_only
    [of "[[(''check_id'', JStr ''CKV_GCP_14''), (''resource'', JStr ''a'')]]"
        "[[(''file_path'', JStr ''/main.tf''), (''check_id'', JStr ''CKV_GCP_14'')]]"
        "JObj [(''results'', JObj [(''failed_checks'', JList
           [JObj [(''check_id'', JStr ''CKV_GCP_14''), (''resource'', JStr ''a'')]])])]"
        "JObj [(''summary'', JNull), (''results'', JObj [(''failed_checks'', JList
           [JObj [(''file_path'', JStr ''/main.tf''), (''check_id'', JStr ''CKV_GCP_14'')]])])]"
        "\<lparr>max_critical = 0, max_high = 5\<rparr>"]
  by (simp add: failed_checks_of_def)

section \<open>The report's text helpers\<close>

text \<open>
  C7. For a maximum \<open>n\<close> of at least 3, \<open>truncate_text\<close> returns the text itself when
  it has at most \<open>n\<close> characters, and otherwise its first \<open>n - 3\<close> characters followed
  by three dots, which is a text of exactly \<open>n\<close> characters; the result is never longer
  than \<open>n\<close>. Being a function of the text and the maximum, it gives the same result for
  the same input.
\<close>

theorem truncate_text_bounded:
  assumes "3 \<le> n"
  shows "truncate_text s n = (if int (length s) \<le> n then s else take (nat (n - 3)) s @ ''...'')
       \<and> (n < int (length s) \<longrightarrow> int (length (truncate_text s n)) = n)
       \<and> int (length (truncate_text s n)) \<le> n"
  using assms by (auto simp: truncate_text_def py_slice_to_def)

theorem truncate_text_bounded_witness:
  "truncate_text ''abcdefghij'' 5 = ''ab...'' \<and> truncate_text ''abc'' 3 = ''abc''"
  using truncate_text_bounded [of 5 "''abcdefghij''"] truncate_text_bounded [of 3 "''abc''"]
  by simp

text \<open>
  C9. Stripping the leading \<open>/\<close> characters of a path that was already stripped returns
  it unchanged.
\<close>

theorem lstrip_idempotent:
  "lstrip (lstrip p ''/'') ''/'' = lstrip p ''/''"
  by (simp add: lstrip_def dropWhile_idem)

section \<open>The scanner's findings\<close>




text \<open>
  C6. A failed check without a \<open>check_id\<close> entry: \<open>run_checkov\<close> reads \<open>None\<close>
  for it, \<open>_map_checkov_severity\<close> raises \<open>TypeError\<close> on \<open>None\<close>, no finding
  is produced and the run ends with the error and \<open>passed\<close> false. The gate reads the
  same record with the default \<open>''\<close> and classifies it LOW.
\<close>

theorem run_checkov_missing_check_id:
  "map_checkov_severity JNull = Inl TypeError
   \<and> checkov_finding_of (JObj [(''check_name'', JStr ''Ensure bucket is private'')]) = Inl TypeError
   \<and> run_checkov (Content (JObj [(''results'', JObj [(''failed_checks'',
        JList [JObj [(''check_name'', JStr ''Ensure bucket is private'')]])])]))
      = \<lparr>cr_passed = False,
          cr_summary = [(''passed'', JInt 0), (''failed'', JInt 0), (''skipped'', JInt 0),
                        (''parsing_errors'', JInt 0)],
          cr_findings = [], cr_error = Some TypeError\<rparr>
   \<and> check_severity (JObj [(''check_name'', JStr ''Ensure bucket is private'')]) = Inr LOW"
  by (simp add: map_checkov_severity_def critical_patterns_def checkov_finding_of_def
      run_checkov_def summary_of_def failed_checks_of_def checkov_result0_def
      check_severity_def categorize_severity_def py_in_or_in_def)

end
